theory Spec2Isabelle
  imports Complex_Main "HOL-Library.AList"
begin

section \<open>JavaScript values\<close>

text \<open>
  A JavaScript number is a double: not-a-number, an infinity, or a finite value, which is
  a rational. Negative zero is identified with zero; they compare equal and both are
  integers for \<open>Number.isInteger\<close>.
\<close>

datatype jsnum = NaN | PosInf | NegInf | Fin rat

text \<open>
  The values that travel through the schemas and the handlers: \<open>undefined\<close>, \<open>null\<close>,
  booleans, numbers, strings, arrays and plain objects. An object is its list of own
  properties in insertion order, with distinct keys.
\<close>

datatype jsval =
    JUndefined
  | JNull
  | JBool bool
  | JNum jsnum
  | JStr string
  | JArr "jsval list"
  | JObj "(string \<times> jsval) list"

type_synonym jsobj = "(string \<times> jsval) list"

text \<open>\<open>o[k]\<close> on an object: the property's value, \<open>undefined\<close> when the key is absent.\<close>

definition getProp :: "jsobj \<Rightarrow> string \<Rightarrow> jsval" where
  "getProp kvs k = (case map_of kvs k of Some v \<Rightarrow> v | None \<Rightarrow> JUndefined)"

text \<open>Reading a property of any value; only an object has own properties here.\<close>

fun member :: "jsval \<Rightarrow> string \<Rightarrow> jsval" where
  "member (JObj kvs) k = getProp kvs k"
| "member _ k = JUndefined"

section \<open>The zod schemas\<close>

text \<open>
  A schema is the chain of zod calls that builds it. \<open>describe\<close> and \<open>readonly\<close> change
  nothing in what a schema accepts and are left out of the chain.
\<close>

datatype strcheck = MaxLen nat | Regex "string \<Rightarrow> bool"

datatype numcheck = IsInt | Min rat | Max rat

datatype schema =
    ZString "strcheck list"
  | ZNumber "numcheck list"
  | ZBoolean
  | ZEnum "string list"
  | ZNullable schema
  | ZOptional schema
  | ZObject "(string \<times> schema) list"

fun str_ok :: "string \<Rightarrow> strcheck \<Rightarrow> bool" where
  "str_ok s (MaxLen n) = (length s \<le> n)"
| "str_ok s (Regex re) = re s"

text \<open>
  \<open>int()\<close> is \<open>Number.isInteger\<close>, false on the infinities; \<open>min\<close> and \<open>max\<close> are
  the comparisons \<open>>=\<close> and \<open><=\<close> of doubles.
\<close>

fun num_ok :: "jsnum \<Rightarrow> numcheck \<Rightarrow> bool" where
  "num_ok (Fin q) IsInt = (of_int \<lfloor>q\<rfloor> = q)"
| "num_ok _ IsInt = False"
| "num_ok (Fin q) (Min m) = (m \<le> q)"
| "num_ok PosInf (Min m) = True"
| "num_ok _ (Min m) = False"
| "num_ok (Fin q) (Max m) = (q \<le> m)"
| "num_ok NegInf (Max m) = True"
| "num_ok _ (Max m) = False"

text \<open>
  \<open>accepts s v\<close>: \<open>s.safeParse(v).success\<close>. \<open>z.number()\<close> refuses \<open>NaN\<close>. An
  object schema reads each key of its shape from the input, \<open>undefined\<close> for a key
  that is absent, and ignores the keys it does not know.
\<close>

fun accepts :: "schema \<Rightarrow> jsval \<Rightarrow> bool"
  and accepts_shape :: "(string \<times> schema) list \<Rightarrow> jsobj \<Rightarrow> bool" where
  "accepts (ZString cs) v = (case v of JStr s \<Rightarrow> list_all (str_ok s) cs | _ \<Rightarrow> False)"
| "accepts (ZNumber cs) v =
     (case v of JNum n \<Rightarrow> n \<noteq> NaN \<and> list_all (num_ok n) cs | _ \<Rightarrow> False)"
| "accepts ZBoolean v = (case v of JBool b \<Rightarrow> True | _ \<Rightarrow> False)"
| "accepts (ZEnum opts) v = (case v of JStr s \<Rightarrow> s \<in> set opts | _ \<Rightarrow> False)"
| "accepts (ZNullable s) v = (v = JNull \<or> accepts s v)"
| "accepts (ZOptional s) v = (v = JUndefined \<or> accepts s v)"
| "accepts (ZObject shape) v = (case v of JObj kvs \<Rightarrow> accepts_shape shape kvs | _ \<Rightarrow> False)"
| "accepts_shape [] kvs = True"
| "accepts_shape ((k, s) # shape) kvs = (accepts s (getProp kvs k) \<and> accepts_shape shape kvs)"

text \<open>\<open>nullish()\<close> is \<open>nullable().optional()\<close>.\<close>

definition nullish :: "schema \<Rightarrow> schema" where
  "nullish s = ZOptional (ZNullable s)"

text \<open>\<open>omit\<close> drops the named keys of an object schema's shape.\<close>

fun omit :: "string list \<Rightarrow> schema \<Rightarrow> schema" where
  "omit ks (ZObject shape) = ZObject (filter (\<lambda>(k, s). k \<notin> set ks) shape)"
| "omit ks s = s"

text \<open>
  \<open>extend\<close> spreads the new fields over the shape: a key already there takes the new
  schema, a new key goes to the end.
\<close>

fun extend :: "(string \<times> schema) list \<Rightarrow> schema \<Rightarrow> schema" where
  "extend ext (ZObject shape) = ZObject (fold (\<lambda>(k, s). AList.update k s) ext shape)"
| "extend ext s = s"

subsection \<open>lib/experience/types.ts\<close>

text \<open>The pattern \<open>/^[A-Z]{3}$/\<close>: exactly three letters from A to Z.\<close>

definition country_code_re :: "string \<Rightarrow> bool" where
  "country_code_re s =
     (length s = 3 \<and> list_all (\<lambda>c. 65 \<le> (of_char c :: nat) \<and> (of_char c :: nat) \<le> 90) s)"

text \<open>
  The base schema. The pattern behind \<open>uuid()\<close> belongs to the zod release in use and is
  the parameter \<open>uuid_re\<close>; \<open>year\<close> is \<open>new Date().getFullYear()\<close> at the time the
  module is loaded.
\<close>

definition ExperienceSchema :: "(string \<Rightarrow> bool) \<Rightarrow> int \<Rightarrow> schema" where
  "ExperienceSchema uuid_re year = ZObject [
     (''id'', ZString [Regex uuid_re]),
     (''user'', ZString []),
     (''resume_section'', ZString [Regex uuid_re]),
     (''company_name'', ZString [MaxLen 250]),
     (''job_title'', ZString [MaxLen 250]),
     (''country'', ZObject [
        (''code'', ZString [Regex country_code_re]),
        (''name'', ZString [])]),
     (''city'', ZOptional (ZNullable (ZString [MaxLen 50]))),
     (''employment_type'', ZString []),
     (''started_from_month'', ZOptional (ZNullable (ZNumber [IsInt, Min 1, Max 12]))),
     (''started_from_year'',
        ZOptional (ZNullable (ZNumber [IsInt, Min 1947, Max (of_int year)]))),
     (''finished_at_month'', ZOptional (ZNullable (ZNumber [IsInt, Min 1, Max 12]))),
     (''finished_at_year'',
        ZOptional (ZNullable (ZNumber [IsInt, Min 1947, Max (of_int year)]))),
     (''current'', ZBoolean),
     (''description'', ZOptional (ZNullable (ZString [MaxLen 3000]))),
     (''created_at'', ZString []),
     (''updated_at'', ZString [])]"

text \<open>The mutation schema: the base schema without its read-only and date fields,
  extended with the form's own versions of six of them.\<close>

definition ExperienceMutationSchema :: "(string \<Rightarrow> bool) \<Rightarrow> int \<Rightarrow> schema" where
  "ExperienceMutationSchema uuid_re year =
     extend [
       (''employment_type'',
          ZEnum [''flt'', ''prt'', ''con'', ''int'', ''fre'', ''sel'', ''vol'', ''tra'']),
       (''country'', ZString [Regex country_code_re]),
       (''started_from_month'', nullish (ZString [])),
       (''started_from_year'', nullish (ZString [])),
       (''finished_at_month'', nullish (ZString [])),
       (''finished_at_year'', nullish (ZString []))]
     (omit [''id'', ''user'', ''resume_section'', ''employment_type'', ''country'',
            ''started_from_month'', ''started_from_year'', ''finished_at_month'',
            ''finished_at_year'', ''created_at'', ''updated_at'']
        (ExperienceSchema uuid_re year))"

text \<open>The employment types offered by the form, each a label and a value.\<close>

definition employmentTypes :: "jsval list" where
  "employmentTypes = [
     JObj [(''label'', JStr ''Full-time''), (''value'', JStr ''flt'')],
     JObj [(''label'', JStr ''Part-time''), (''value'', JStr ''prt'')],
     JObj [(''label'', JStr ''Contract''), (''value'', JStr ''con'')],
     JObj [(''label'', JStr ''Internship''), (''value'', JStr ''int'')],
     JObj [(''label'', JStr ''Freelance''), (''value'', JStr ''fre'')],
     JObj [(''label'', JStr ''Self-employed''), (''value'', JStr ''sel'')],
     JObj [(''label'', JStr ''Volunteer''), (''value'', JStr ''vol'')],
     JObj [(''label'', JStr ''Trainee''), (''value'', JStr ''tra'')]]"

text \<open>
  What the specification asks of a date part: absent, \<open>null\<close>, or an integer between
  two bounds.
\<close>

definition date_part :: "int \<Rightarrow> int \<Rightarrow> jsval \<Rightarrow> bool" where
  "date_part lo hi v =
     (v = JUndefined \<or> v = JNull \<or> (\<exists>n. v = JNum (Fin (of_int n)) \<and> lo \<le> n \<and> n \<le> hi))"

definition string_or_nullish :: "jsval \<Rightarrow> bool" where
  "string_or_nullish v = (v = JUndefined \<or> v = JNull \<or> (\<exists>s. v = JStr s))"

section \<open>Handlers and their effects\<close>

text \<open>What a \<open>throw\<close> or a rejected promise carries.\<close>

datatype exn = Error string | TypeError string | Rejected string

text \<open>
  \<open>v.k\<close> on any value: a \<open>TypeError\<close> on \<open>undefined\<close> and \<open>null\<close>, the
  property otherwise.
\<close>

fun readProp :: "jsval \<Rightarrow> string \<Rightarrow> exn + jsval" where
  "readProp JUndefined k = Inl (TypeError ''Cannot read properties of undefined'')"
| "readProp JNull k = Inl (TypeError ''Cannot read properties of null'')"
| "readProp v k = Inr (member v k)"

text \<open>The truth value of a value in a condition.\<close>

fun truthy :: "jsval \<Rightarrow> bool" where
  "truthy JUndefined = False"
| "truthy JNull = False"
| "truthy (JBool b) = b"
| "truthy (JNum n) = (n \<noteq> NaN \<and> n \<noteq> Fin 0)"
| "truthy (JStr s) = (s \<noteq> [])"
| "truthy (JArr xs) = True"
| "truthy (JObj kvs) = True"

text \<open>\<open>Array.prototype.findIndex\<close>: the first position that satisfies, or -1.\<close>

fun findIndex :: "('a \<Rightarrow> bool) \<Rightarrow> 'a list \<Rightarrow> int" where
  "findIndex p [] = - 1"
| "findIndex p (x # xs) =
     (if p x then 0 else (let i = findIndex p xs in if i < 0 then - 1 else i + 1))"

text \<open>
  A request as \<open>fetch\<close> gets it: the address, the \<open>method\<close>, the headers, and as
  \<open>body\<close> the value that \<open>JSON.stringify\<close> serialises.
\<close>

record request =
  url :: string
  http_method :: string
  headers :: "(string \<times> string) list"
  body :: jsval

text \<open>A response: its \<open>ok\<close> flag, and what \<open>response.json()\<close> settles to.\<close>

record response =
  ok :: bool
  json :: "exn + jsval"

text \<open>
  The message given to \<open>resend.emails.send\<close>; its \<open>from\<close> and \<open>to\<close> are the
  fields \<open>sender\<close> and \<open>recipient\<close>.
\<close>

record email =
  sender :: string
  replyTo :: string
  recipient :: jsval
  subject :: string
  react :: jsval

text \<open>
  What a handler does to the world, in order: a toast, a navigation, a new list handed to
  the parent, a form reset, a line on the console, a call of a server action with its
  argument, a request sent with \<open>fetch\<close>, an e-mail handed to the mail service.
\<close>

datatype event =
    Toast string
  | Push string
  | SetEducations "jsval list"
  | SetExperiences "jsval list"
  | FormReset
  | ConsoleLog jsval
  | Call string jsval
  | Fetch request
  | SendEmail email

definition toasts :: "event list \<Rightarrow> string list" where
  "toasts evs = concat (map (\<lambda>e. case e of Toast m \<Rightarrow> [m] | _ \<Rightarrow> []) evs)"

definition fetches :: "event list \<Rightarrow> request list" where
  "fetches evs = concat (map (\<lambda>e. case e of Fetch r \<Rightarrow> [r] | _ \<Rightarrow> []) evs)"

definition calls :: "event list \<Rightarrow> (string \<times> jsval) list" where
  "calls evs = concat (map (\<lambda>e. case e of Call f a \<Rightarrow> [(f, a)] | _ \<Rightarrow> []) evs)"

definition emails :: "event list \<Rightarrow> email list" where
  "emails evs = concat (map (\<lambda>e. case e of SendEmail m \<Rightarrow> [m] | _ \<Rightarrow> []) evs)"

text \<open>
  The collaborators that live outside the files at hand: the environment variables and
  configured addresses, \<open>fetch\<close>, the waitlist schema's \<open>parse\<close> (an object schema, so
  what it returns is an object), the mail service and the welcome e-mail's body, the blog
  posts and the HTML-to-Markdown converter, the two server actions of the onboarding
  forms, the list of month names and \<open>parseInt\<close>. Each call settles to a value or to
  a failure.
\<close>

record env =
  API_URL :: string
  DISCORD_BOD_TOKEN :: string
  discordBlogUrl :: string
  defaultUrl :: string
  fetch :: "request \<Rightarrow> exn + response"
  WaitlistMutationSchema_parse :: "jsval \<Rightarrow> exn + jsobj"
  resend_emails_send :: "email \<Rightarrow> exn + unit"
  WaitlistWelcomeEmail :: jsval
  getPosts :: "exn + jsval list"
  turndown :: "jsval \<Rightarrow> exn + jsval"
  addOrUpdateUserInfoToDB :: "jsval \<Rightarrow> exn + jsval"
  addEducationToDB :: "jsval \<Rightarrow> exn + jsval"
  months :: "string list"
  parseInt :: "jsval \<Rightarrow> jsnum"

subsection \<open>signUpForWaitlist\<close>

text \<open>
  The result is the value the promise resolves to, or the failure it rejects with, and the
  effects up to that point. Nothing is caught inside the function.
\<close>

definition signUpForWaitlist :: "env \<Rightarrow> string \<Rightarrow> jsval \<Rightarrow> (exn + jsval) \<times> event list" where
  "signUpForWaitlist env address referrer =
     (case WaitlistMutationSchema_parse env
             (JObj [(''email'', JStr address), (''referrer'', referrer)]) of
        Inl e \<Rightarrow> (Inl e, [])
      | Inr params \<Rightarrow>
          let req = \<lparr>url = API_URL env @ ''/waitlist/'', http_method = ''POST'',
                     headers = [(''Content-Type'', ''application/json'')],
                     body = JObj params\<rparr>
          in
          (case fetch env req of
             Inl e \<Rightarrow> (Inl e, [Fetch req])
           | Inr response \<Rightarrow>
               if \<not> ok response then
                 (let logged = [Fetch req, ConsoleLog (JStr ''DUPLICATE ENTRY'')] in
                  case json response of
                    Inl e \<Rightarrow> (Inl e, logged)
                  | Inr data \<Rightarrow>
                      (case readProp data ''error'' of
                         Inl e \<Rightarrow> (Inl e, logged)
                       | Inr err \<Rightarrow>
                           (case readProp err ''details'' of
                              Inl e \<Rightarrow> (Inl e, logged)
                            | Inr details \<Rightarrow>
                                (Inr (JObj params), logged @ [ConsoleLog details]))))
               else
                 (let mail = \<lparr>sender = ''Subhajit from Letraz <subhajit@letraz.app>'',
                              replyTo = ''Subhajit from Letraz <subhajit@letraz.app>'',
                              recipient = getProp params ''email'',
                              subject = ''Welcome to Letraz waitlist!'',
                              react = WaitlistWelcomeEmail env\<rparr>;
                      sent = [Fetch req, SendEmail mail]
                  in
                  case resend_emails_send env mail of
                    Inl e \<Rightarrow> (Inl e, sent)
                  | Inr u \<Rightarrow>
                      (case json response of
                         Inl e \<Rightarrow> (Inl e, sent)
                       | Inr data \<Rightarrow>
                           (case WaitlistMutationSchema_parse env data of
                              Inl e \<Rightarrow> (Inl e, sent)
                            | Inr out \<Rightarrow> (Inr (JObj out), sent))))))"

subsection \<open>The Discord announcement route\<close>

text \<open>
  The body of the \<open>try\<close>: the newest post, the request built from it, the request
  sent. The answer to the request is not looked at.
\<close>

definition POST_try :: "env \<Rightarrow> (exn + jsval) \<times> event list" where
  "POST_try env =
     (case getPosts env of
        Inl e \<Rightarrow> (Inl e, [Call ''getPosts'' JUndefined])
      | Inr posts \<Rightarrow>
          let post = (case posts of [] \<Rightarrow> JUndefined | p # ps \<Rightarrow> p);
              got = [Call ''getPosts'' JUndefined]
          in
          (case readProp post ''feature_image'' of
             Inl e \<Rightarrow> (Inl e, got)
           | Inr feature_image \<Rightarrow>
              (case readProp post ''title'' of
                 Inl e \<Rightarrow> (Inl e, got)
               | Inr title \<Rightarrow>
                  (case readProp post ''html'' of
                     Inl e \<Rightarrow> (Inl e, got)
                   | Inr html \<Rightarrow>
                      (case turndown env html of
                         Inl e \<Rightarrow> (Inl e, got)
                       | Inr markdown \<Rightarrow>
                          let req = \<lparr>url = discordBlogUrl env @ ''/main/announcement'',
                                     http_method = ''POST'',
                                     headers = [(''Content-Type'', ''application/json''),
                                       (''Authorization'',
                                          ''Bearer '' @ DISCORD_BOD_TOKEN env)],
                                     body = JObj [
                                       (''image_url'', feature_image),
                                       (''title'', title),
                                       (''message_content'', markdown),
                                       (''learn_more'',
                                          JStr (defaultUrl env @ ''/changes''))]\<rparr>
                          in
                          (case fetch env req of
                             Inl e \<Rightarrow> (Inl e, got @ [Fetch req])
                           | Inr response \<Rightarrow>
                               (Inr (JObj [(''message'', JStr ''Success'')]),
                                got @ [Fetch req])))))))"

text \<open>The route: the JSON it answers with, and its effects.\<close>

definition POST :: "env \<Rightarrow> jsval \<times> event list" where
  "POST env =
     (case POST_try env of
        (Inr answer, evs) \<Rightarrow> (answer, evs)
      | (Inl error, evs) \<Rightarrow> (JObj [(''message'', JStr ''Failed'')], evs))"

subsection \<open>PersonalDetailsForm\<close>

definition PersonalDetailsForm_onSubmit :: "env \<Rightarrow> jsobj \<Rightarrow> event list" where
  "PersonalDetailsForm_onSubmit env values =
     (case addOrUpdateUserInfoToDB env (JObj values) of
        Inr result \<Rightarrow>
          [Call ''addOrUpdateUserInfoToDB'' (JObj values), Push ''/app/onboarding?step=education'']
      | Inl error \<Rightarrow>
          [Call ''addOrUpdateUserInfoToDB'' (JObj values),
           Toast ''Failed to update information, please try again''])"

subsection \<open>EducationForm\<close>

text \<open>A month name becomes its position in \<open>months\<close>, counted from one.\<close>

definition month_number :: "env \<Rightarrow> jsval \<Rightarrow> jsval" where
  "month_number env v = JNum (Fin (of_int (findIndex (\<lambda>month. v = JStr month) (months env) + 1)))"

text \<open>The object literal that \<open>insertEducation\<close> hands to the server action.\<close>

definition education_payload :: "env \<Rightarrow> jsobj \<Rightarrow> jsval" where
  "education_payload env values = JObj (
        AList.update ''current'' (JBool (\<not> truthy (getProp values ''finished_at_year'')))
       (AList.update ''finished_at_year''
          (if truthy (getProp values ''finished_at_year'')
           then JNum (parseInt env (getProp values ''finished_at_year'')) else JNull)
       (AList.update ''finished_at_month''
          (if truthy (getProp values ''finished_at_month'')
           then month_number env (getProp values ''finished_at_month'') else JNull)
       (AList.update ''started_from_year''
          (if truthy (getProp values ''started_from_year'')
           then JNum (parseInt env (getProp values ''started_from_year'')) else JNull)
       (AList.update ''started_from_month''
          (if truthy (getProp values ''started_from_month'')
           then month_number env (getProp values ''started_from_month'') else JNull)
        values)))))"

definition insertEducation :: "env \<Rightarrow> jsobj \<Rightarrow> (exn + jsval) \<times> event list" where
  "insertEducation env values =
     (addEducationToDB env (education_payload env values),
      [Call ''addEducationToDB'' (education_payload env values)])"

text \<open>\<open>onSubmit\<close>: the body of the \<open>try\<close>, then the \<open>catch\<close>.\<close>

definition EducationForm_onSubmit_try ::
  "env \<Rightarrow> jsval list \<Rightarrow> jsobj \<Rightarrow> (exn + unit) \<times> event list" where
  "EducationForm_onSubmit_try env educations values =
     (case insertEducation env values of
        (Inl e, evs) \<Rightarrow> (Inl e, evs)
      | (Inr newEducation, evs) \<Rightarrow>
          if truthy newEducation
          then (Inr (), evs @ [SetEducations (educations @ [newEducation]), FormReset])
          else (Inl (Error ''Failed to add education''), evs))"

definition EducationForm_onSubmit :: "env \<Rightarrow> jsval list \<Rightarrow> jsobj \<Rightarrow> event list" where
  "EducationForm_onSubmit env educations values =
     (case EducationForm_onSubmit_try env educations values of
        (Inr u, evs) \<Rightarrow> evs
      | (Inl error, evs) \<Rightarrow> evs @ [Toast ''Failed to add education, please try again''])"

text \<open>\<open>submitWithRedirect\<close>, given \<open>form.formState.isDirty\<close>.\<close>

definition EducationForm_submitWithRedirect :: "env \<Rightarrow> bool \<Rightarrow> jsobj \<Rightarrow> event list" where
  "EducationForm_submitWithRedirect env isDirty values =
     (case (if isDirty then insertEducation env values else (Inr JUndefined, [])) of
        (Inr result, evs) \<Rightarrow> evs @ [Push ''/app/onboarding?step=experience'']
      | (Inl error, evs) \<Rightarrow> evs @ [Toast ''Failed to update education, please try again''])"

subsection \<open>ExperienceForm\<close>

definition ExperienceForm_onSubmit :: "jsval list \<Rightarrow> jsobj \<Rightarrow> event list" where
  "ExperienceForm_onSubmit experiences values =
     [SetExperiences (experiences @ [JObj values]), FormReset]"

definition ExperienceForm_submitWithRedirect :: "jsobj \<Rightarrow> event list" where
  "ExperienceForm_submitWithRedirect values = [Push ''/app/onboarding?step=resume'']"

section \<open>Sample inputs\<close>

text \<open>An experience entry as the API returns it, and the same entry with month 13.\<close>

definition sample_uuid_re :: "string \<Rightarrow> bool" where
  "sample_uuid_re s = (length s = 36)"

definition sample_experience :: "jsval \<Rightarrow> jsval" where
  "sample_experience month = JObj [
     (''id'', JStr ''3f2b8c1e-5d4a-4e6f-9a7b-0c1d2e3f4a5b''),
     (''user'', JStr ''user_2abc''),
     (''resume_section'', JStr ''9a8b7c6d-1e2f-4a3b-8c4d-5e6f7a8b9c0d''),
     (''company_name'', JStr ''Letraz''),
     (''job_title'', JStr ''Engineer''),
     (''country'', JObj [(''code'', JStr ''IND''), (''name'', JStr ''India'')]),
     (''city'', JNull),
     (''employment_type'', JStr ''flt''),
     (''started_from_month'', month),
     (''started_from_year'', JNum (Fin 2020)),
     (''finished_at_year'', JNull),
     (''current'', JBool True),
     (''created_at'', JStr ''2024-11-02T07:09:00Z''),
     (''updated_at'', JStr ''2024-11-02T07:09:00Z'')]"

text \<open>A mutation as the experience form would send it, with a given start month.\<close>

definition sample_mutation :: "jsval \<Rightarrow> jsobj" where
  "sample_mutation month = [
     (''company_name'', JStr ''Letraz''),
     (''job_title'', JStr ''Engineer''),
     (''country'', JStr ''IND''),
     (''employment_type'', JStr ''flt''),
     (''started_from_month'', month),
     (''started_from_year'', JStr ''2020''),
     (''current'', JBool True)]"

text \<open>
  An environment whose remote calls settle as given: the waitlist schema returns its
  input's properties, every request gets the same answer, and both server actions settle
  to \<open>saved\<close>.
\<close>

definition sample_env :: "(exn + response) \<Rightarrow> (exn + jsval) \<Rightarrow> env" where
  "sample_env answer saved = \<lparr>
     API_URL = ''https://api.letraz.app'',
     DISCORD_BOD_TOKEN = ''token'',
     discordBlogUrl = ''https://discord.letraz.app'',
     defaultUrl = ''https://letraz.app'',
     fetch = (\<lambda>req. answer),
     WaitlistMutationSchema_parse =
       (\<lambda>v. case v of JObj kvs \<Rightarrow> Inr kvs | _ \<Rightarrow> Inl (Rejected ''ZodError'')),
     resend_emails_send = (\<lambda>mail. Inr ()),
     WaitlistWelcomeEmail = JStr ''welcome'',
     getPosts = Inr [JObj [(''feature_image'', JStr ''a.png''), (''title'', JStr ''News''),
                           (''html'', JStr ''<p>News</p>'')]],
     turndown = (\<lambda>html. Inr html),
     addOrUpdateUserInfoToDB = (\<lambda>payload. saved),
     addEducationToDB = (\<lambda>payload. saved),
     months = [''January'', ''February'', ''March''],
     parseInt = (\<lambda>v. Fin 2020)\<rparr>"

definition sample_values :: jsobj where
  "sample_values = [
     (''institution_name'', JStr ''IIT''),
     (''started_from_month'', JStr ''February''),
     (''started_from_year'', JStr ''2020''),
     (''finished_at_year'', JStr '''')]"

section \<open>Validation of the experience schemas\<close>

lemma accepts_shape_iff:
  "accepts_shape shape kvs = (\<forall>(k, s) \<in> set shape. accepts s (getProp kvs k))"
  by (induction shape) auto

lemma accepts_shape_field:
  "accepts_shape shape kvs \<Longrightarrow> (k, s) \<in> set shape \<Longrightarrow> accepts s (getProp kvs k)"
  by (auto simp: accepts_shape_iff)

lemma accepts_ZObject:
  "accepts (ZObject shape) r \<Longrightarrow> (k, s) \<in> set shape \<Longrightarrow> accepts s (member r k)"
  by (cases r) (auto dest: accepts_shape_field)

text \<open>The three number checks of a date part hold exactly of the integers in range.\<close>

lemma num_ok_int_range:
  "(n \<noteq> NaN \<and> list_all (num_ok n) [IsInt, Min (of_int lo), Max (of_int hi)])
     = (\<exists>k. n = Fin (of_int k) \<and> lo \<le> k \<and> k \<le> hi)"
proof (cases n)
  case (Fin q)
  show ?thesis
  proof
    assume a: "n \<noteq> NaN \<and> list_all (num_ok n) [IsInt, Min (of_int lo), Max (of_int hi)]"
    with Fin have "num_ok (Fin q) IsInt" and lo: "of_int lo \<le> q" and hi: "q \<le> of_int hi"
      by simp_all
    then have q: "q = of_int \<lfloor>q\<rfloor>" by (simp only: num_ok.simps)
    from q lo have "of_int lo \<le> (of_int \<lfloor>q\<rfloor> :: rat)" by (simp only:)
    then have l: "lo \<le> \<lfloor>q\<rfloor>" by (simp only: of_int_le_iff)
    from q hi have "(of_int \<lfloor>q\<rfloor> :: rat) \<le> of_int hi" by (simp only:)
    then have h: "\<lfloor>q\<rfloor> \<le> hi" by (simp only: of_int_le_iff)
    from Fin q l h show "\<exists>k. n = Fin (of_int k) \<and> lo \<le> k \<and> k \<le> hi" by blast
  next
    assume "\<exists>k. n = Fin (of_int k) \<and> lo \<le> k \<and> k \<le> hi"
    then show "n \<noteq> NaN \<and> list_all (num_ok n) [IsInt, Min (of_int lo), Max (of_int hi)]"
      by auto
  qed
qed auto

lemma accepts_date_part:
  "accepts (ZOptional (ZNullable (ZNumber [IsInt, Min (of_int lo), Max (of_int hi)]))) v
     = date_part lo hi v"
proof (cases v)
  case (JNum n)
  then show ?thesis
    using num_ok_int_range [of n lo hi] by (simp add: date_part_def)
qed (simp_all add: date_part_def)

lemma ExperienceSchema_fields:
  assumes "accepts (ExperienceSchema uuid_re year) r"
  shows "date_part 1 12 (member r ''started_from_month'')"
    and "date_part 1947 year (member r ''started_from_year'')"
    and "date_part 1 12 (member r ''finished_at_month'')"
    and "date_part 1947 year (member r ''finished_at_year'')"
proof -
  note f = accepts_ZObject [OF assms [unfolded ExperienceSchema_def]]
  have "accepts (ZOptional (ZNullable (ZNumber [IsInt, Min (of_int 1), Max (of_int 12)])))
          (member r ''started_from_month'')"
    by (rule f) simp
  then show "date_part 1 12 (member r ''started_from_month'')"
    by (simp only: accepts_date_part)
  have "accepts (ZOptional (ZNullable (ZNumber [IsInt, Min (of_int 1947), Max (of_int year)])))
          (member r ''started_from_year'')"
    by (rule f) simp
  then show "date_part 1947 year (member r ''started_from_year'')"
    by (simp only: accepts_date_part)
  have "accepts (ZOptional (ZNullable (ZNumber [IsInt, Min (of_int 1), Max (of_int 12)])))
          (member r ''finished_at_month'')"
    by (rule f) simp
  then show "date_part 1 12 (member r ''finished_at_month'')"
    by (simp only: accepts_date_part)
  have "accepts (ZOptional (ZNullable (ZNumber [IsInt, Min (of_int 1947), Max (of_int year)])))
          (member r ''finished_at_year'')"
    by (rule f) simp
  then show "date_part 1947 year (member r ''finished_at_year'')"
    by (simp only: accepts_date_part)
qed

text \<open>
  C1. Every record that \<open>ExperienceSchema\<close> accepts has \<open>started_from_month\<close> and
  \<open>finished_at_month\<close> absent, \<open>null\<close> or an integer from 1 to 12, and
  \<open>started_from_year\<close> and \<open>finished_at_year\<close> absent, \<open>null\<close> or an integer from 1947
  to the current year; an input with one of the four outside these bounds is rejected.
\<close>

theorem ExperienceSchema_date_parts:
  "(accepts (ExperienceSchema uuid_re year) r \<longrightarrow>
      date_part 1 12 (member r ''started_from_month'') \<and>
      date_part 1947 year (member r ''started_from_year'') \<and>
      date_part 1 12 (member r ''finished_at_month'') \<and>
      date_part 1947 year (member r ''finished_at_year'')) \<and>
   (\<not> (date_part 1 12 (member r ''started_from_month'') \<and>
       date_part 1947 year (member r ''started_from_year'') \<and>
       date_part 1 12 (member r ''finished_at_month'') \<and>
       date_part 1947 year (member r ''finished_at_year'')) \<longrightarrow>
      \<not> accepts (ExperienceSchema uuid_re year) r)"
  using ExperienceSchema_fields [of uuid_re year r] by blast

lemma sample_experience_accepted:
  "accepts (ExperienceSchema sample_uuid_re 2026) (sample_experience (JNum (Fin 11)))"
  by (simp add: ExperienceSchema_def sample_experience_def sample_uuid_re_def
      country_code_re_def getProp_def)

lemma month_13_out_of_range: "\<not> date_part 1 12 (JNum (Fin 13))"
proof
  assume "date_part 1 12 (JNum (Fin 13))"
  then obtain n :: int where n: "(13 :: rat) = of_int n" and le: "n \<le> 12"
    by (auto simp: date_part_def)
  from n have "(of_int 13 :: rat) = of_int n" by simp
  then have "n = 13" by (simp only: of_int_eq_iff)
  with le show False by simp
qed

theorem ExperienceSchema_date_parts_witness:
  "accepts (ExperienceSchema sample_uuid_re 2026) (sample_experience (JNum (Fin 11))) \<and>
   date_part 1 12 (member (sample_experience (JNum (Fin 11))) ''started_from_month'') \<and>
   date_part 1947 2026 (member (sample_experience (JNum (Fin 11))) ''started_from_year'') \<and>
   date_part 1 12 (member (sample_experience (JNum (Fin 11))) ''finished_at_month'') \<and>
   date_part 1947 2026 (member (sample_experience (JNum (Fin 11))) ''finished_at_year'') \<and>
   \<not> date_part 1 12 (member (sample_experience (JNum (Fin 13))) ''started_from_month'') \<and>
   \<not> accepts (ExperienceSchema sample_uuid_re 2026) (sample_experience (JNum (Fin 13)))"
proof -
  have m: "member (sample_experience (JNum (Fin 13))) ''started_from_month'' = JNum (Fin 13)"
    by (simp add: sample_experience_def getProp_def)
  show ?thesis
    using ExperienceSchema_date_parts [of sample_uuid_re 2026 "sample_experience (JNum (Fin 11))"]
      ExperienceSchema_date_parts [of sample_uuid_re 2026 "sample_experience (JNum (Fin 13))"]
      sample_experience_accepted month_13_out_of_range m
    by simp
qed

lemma getProp_update:
  "getProp (AList.update k v kvs) k' = (if k' = k then v else getProp kvs k')"
  by (simp add: getProp_def update_conv')

lemma accepts_shape_update:
  assumes "accepts_shape shape kvs"
  shows "accepts_shape shape (AList.update k v kvs) = (\<forall>s. (k, s) \<in> set shape \<longrightarrow> accepts s v)"
  using assms unfolding accepts_shape_iff getProp_update by fastforce

subsection \<open>The mutation schema\<close>

text \<open>
  The shape that \<open>omit\<close> and \<open>extend\<close> leave: five fields of the base schema,
  then the six fields of the extension.
\<close>

lemma ExperienceMutationSchema_shape:
  "ExperienceMutationSchema uuid_re year = ZObject [
     (''company_name'', ZString [MaxLen 250]),
     (''job_title'', ZString [MaxLen 250]),
     (''city'', ZOptional (ZNullable (ZString [MaxLen 50]))),
     (''current'', ZBoolean),
     (''description'', ZOptional (ZNullable (ZString [MaxLen 3000]))),
     (''employment_type'',
        ZEnum [''flt'', ''prt'', ''con'', ''int'', ''fre'', ''sel'', ''vol'', ''tra'']),
     (''country'', ZString [Regex country_code_re]),
     (''started_from_month'', ZOptional (ZNullable (ZString []))),
     (''started_from_year'', ZOptional (ZNullable (ZString []))),
     (''finished_at_month'', ZOptional (ZNullable (ZString []))),
     (''finished_at_year'', ZOptional (ZNullable (ZString [])))]"
  by (simp add: ExperienceMutationSchema_def ExperienceSchema_def nullish_def)

lemma accepts_nullish_string:
  "accepts (ZOptional (ZNullable (ZString []))) v = string_or_nullish v"
  by (cases v) (simp_all add: string_or_nullish_def)

lemma accepts_ZEnum:
  "accepts (ZEnum opts) v = (\<exists>s. v = JStr s \<and> s \<in> set opts)"
  by (cases v) simp_all

lemma mutation_is_object:
  "accepts (ExperienceMutationSchema uuid_re year) r \<Longrightarrow> \<exists>kvs. r = JObj kvs"
  unfolding ExperienceMutationSchema_shape by (cases r) simp_all

lemma mutation_date_strings:
  assumes "accepts (ExperienceMutationSchema uuid_re year) r"
  shows "string_or_nullish (member r ''started_from_month'')"
    and "string_or_nullish (member r ''started_from_year'')"
    and "string_or_nullish (member r ''finished_at_month'')"
    and "string_or_nullish (member r ''finished_at_year'')"
proof -
  note f = accepts_ZObject [OF assms [unfolded ExperienceMutationSchema_shape]]
  have "accepts (ZOptional (ZNullable (ZString []))) (member r ''started_from_month'')"
    by (rule f) simp
  then show "string_or_nullish (member r ''started_from_month'')"
    by (simp only: accepts_nullish_string)
  have "accepts (ZOptional (ZNullable (ZString []))) (member r ''started_from_year'')"
    by (rule f) simp
  then show "string_or_nullish (member r ''started_from_year'')"
    by (simp only: accepts_nullish_string)
  have "accepts (ZOptional (ZNullable (ZString []))) (member r ''finished_at_month'')"
    by (rule f) simp
  then show "string_or_nullish (member r ''finished_at_month'')"
    by (simp only: accepts_nullish_string)
  have "accepts (ZOptional (ZNullable (ZString []))) (member r ''finished_at_year'')"
    by (rule f) simp
  then show "string_or_nullish (member r ''finished_at_year'')"
    by (simp only: accepts_nullish_string)
qed

lemma mutation_employment_type_member:
  assumes "accepts (ExperienceMutationSchema uuid_re year) r"
  shows "\<exists>s. member r ''employment_type'' = JStr s \<and>
           s \<in> set [''flt'', ''prt'', ''con'', ''int'', ''fre'', ''sel'', ''vol'', ''tra'']"
proof -
  note f = accepts_ZObject [OF assms [unfolded ExperienceMutationSchema_shape]]
  have "accepts (ZEnum [''flt'', ''prt'', ''con'', ''int'', ''fre'', ''sel'', ''vol'', ''tra''])
          (member r ''employment_type'')"
    by (rule f) simp
  then show ?thesis by (simp only: accepts_ZEnum)
qed

lemma accepts_JObj: "accepts (ZObject shape) (JObj kvs) = accepts_shape shape kvs"
  by simp

lemma mutation_update:
  assumes "accepts (ExperienceMutationSchema uuid_re year) (JObj kvs)"
  shows "accepts (ExperienceMutationSchema uuid_re year) (JObj (AList.update k v kvs)) =
     (\<forall>s. (k, s) \<in> set [
     (''company_name'', ZString [MaxLen 250]),
     (''job_title'', ZString [MaxLen 250]),
     (''city'', ZOptional (ZNullable (ZString [MaxLen 50]))),
     (''current'', ZBoolean),
     (''description'', ZOptional (ZNullable (ZString [MaxLen 3000]))),
     (''employment_type'',
        ZEnum [''flt'', ''prt'', ''con'', ''int'', ''fre'', ''sel'', ''vol'', ''tra'']),
     (''country'', ZString [Regex country_code_re]),
     (''started_from_month'', ZOptional (ZNullable (ZString []))),
     (''started_from_year'', ZOptional (ZNullable (ZString []))),
     (''finished_at_month'', ZOptional (ZNullable (ZString []))),
     (''finished_at_year'', ZOptional (ZNullable (ZString [])))] \<longrightarrow> accepts s v)"
  using assms unfolding ExperienceMutationSchema_shape accepts_JObj
  by (rule accepts_shape_update)

lemma mutation_employment_type:
  assumes "accepts (ExperienceMutationSchema uuid_re year) (JObj kvs)"
  shows "accepts (ExperienceMutationSchema uuid_re year)
            (JObj (AList.update ''employment_type'' (JStr s) kvs))
         = (s \<in> set [''flt'', ''prt'', ''con'', ''int'', ''fre'', ''sel'', ''vol'', ''tra''])"
  unfolding mutation_update [OF assms] by simp

lemma mutation_date_any_string:
  assumes "accepts (ExperienceMutationSchema uuid_re year) (JObj kvs)"
  shows "accepts (ExperienceMutationSchema uuid_re year)
            (JObj (AList.update ''started_from_month'' (JStr s) kvs))"
    and "accepts (ExperienceMutationSchema uuid_re year)
            (JObj (AList.update ''started_from_year'' (JStr s) kvs))"
    and "accepts (ExperienceMutationSchema uuid_re year)
            (JObj (AList.update ''finished_at_month'' (JStr s) kvs))"
    and "accepts (ExperienceMutationSchema uuid_re year)
            (JObj (AList.update ''finished_at_year'' (JStr s) kvs))"
  unfolding mutation_update [OF assms] by simp_all

lemma mutation_date_no_number:
  assumes "accepts (ExperienceMutationSchema uuid_re year) (JObj kvs)"
  shows "\<not> accepts (ExperienceMutationSchema uuid_re year)
            (JObj (AList.update ''started_from_month'' (JNum n) kvs))"
    and "\<not> accepts (ExperienceMutationSchema uuid_re year)
            (JObj (AList.update ''started_from_year'' (JNum n) kvs))"
    and "\<not> accepts (ExperienceMutationSchema uuid_re year)
            (JObj (AList.update ''finished_at_month'' (JNum n) kvs))"
    and "\<not> accepts (ExperienceMutationSchema uuid_re year)
            (JObj (AList.update ''finished_at_year'' (JNum n) kvs))"
  unfolding mutation_update [OF assms] by simp_all

lemma employmentTypes_values:
  "map (\<lambda>t. member t ''value'') employmentTypes =
     map JStr [''flt'', ''prt'', ''con'', ''int'', ''fre'', ''sel'', ''vol'', ''tra'']"
  by (simp add: employmentTypes_def getProp_def)

lemma sample_mutation_accepted:
  "accepts (ExperienceMutationSchema sample_uuid_re 2026) (JObj (sample_mutation (JStr ''thirteen'')))"
  unfolding ExperienceMutationSchema_shape
  by (simp add: sample_mutation_def getProp_def country_code_re_def)

lemma sample_mutation_rejected:
  "\<not> accepts (ExperienceMutationSchema sample_uuid_re 2026) (JObj (sample_mutation (JNum (Fin 5))))"
  unfolding ExperienceMutationSchema_shape
  by (simp add: sample_mutation_def getProp_def country_code_re_def)

text \<open>
  C2, as the code has it. \<open>ExperienceSchema\<close> holds the four date parts to integers
  within their bounds. \<open>ExperienceMutationSchema\<close> drops these four fields and declares
  them again as optional, nullable strings: every mutation it accepts has each of them
  absent, \<open>null\<close> or a string; in an accepted mutation any of them may be replaced by
  any string whatever, with no integer or range check, and none of them may be a number.
\<close>

theorem ExperienceMutationSchema_date_parts:
  "(accepts (ExperienceSchema uuid_re year) r \<longrightarrow>
      date_part 1 12 (member r ''started_from_month'') \<and>
      date_part 1947 year (member r ''started_from_year'') \<and>
      date_part 1 12 (member r ''finished_at_month'') \<and>
      date_part 1947 year (member r ''finished_at_year'')) \<and>
   (accepts (ExperienceMutationSchema uuid_re year) m \<longrightarrow>
      string_or_nullish (member m ''started_from_month'') \<and>
      string_or_nullish (member m ''started_from_year'') \<and>
      string_or_nullish (member m ''finished_at_month'') \<and>
      string_or_nullish (member m ''finished_at_year'')) \<and>
   (accepts (ExperienceMutationSchema uuid_re year) (JObj kvs) \<longrightarrow>
      accepts (ExperienceMutationSchema uuid_re year)
        (JObj (AList.update ''started_from_month'' (JStr s) kvs)) \<and>
      accepts (ExperienceMutationSchema uuid_re year)
        (JObj (AList.update ''started_from_year'' (JStr s) kvs)) \<and>
      accepts (ExperienceMutationSchema uuid_re year)
        (JObj (AList.update ''finished_at_month'' (JStr s) kvs)) \<and>
      accepts (ExperienceMutationSchema uuid_re year)
        (JObj (AList.update ''finished_at_year'' (JStr s) kvs)) \<and>
      \<not> accepts (ExperienceMutationSchema uuid_re year)
        (JObj (AList.update ''started_from_month'' (JNum n) kvs)) \<and>
      \<not> accepts (ExperienceMutationSchema uuid_re year)
        (JObj (AList.update ''started_from_year'' (JNum n) kvs)) \<and>
      \<not> accepts (ExperienceMutationSchema uuid_re year)
        (JObj (AList.update ''finished_at_month'' (JNum n) kvs)) \<and>
      \<not> accepts (ExperienceMutationSchema uuid_re year)
        (JObj (AList.update ''finished_at_year'' (JNum n) kvs)))"
proof (intro conjI impI)
  assume a: "accepts (ExperienceSchema uuid_re year) r"
  from ExperienceSchema_fields [OF a]
  show "date_part 1 12 (member r ''started_from_month'')"
    and "date_part 1947 year (member r ''started_from_year'')"
    and "date_part 1 12 (member r ''finished_at_month'')"
    and "date_part 1947 year (member r ''finished_at_year'')" .
next
  assume a: "accepts (ExperienceMutationSchema uuid_re year) m"
  from mutation_date_strings [OF a]
  show "string_or_nullish (member m ''started_from_month'')"
    and "string_or_nullish (member m ''started_from_year'')"
    and "string_or_nullish (member m ''finished_at_month'')"
    and "string_or_nullish (member m ''finished_at_year'')" .
next
  assume a: "accepts (ExperienceMutationSchema uuid_re year) (JObj kvs)"
  from mutation_date_any_string [OF a]
  show "accepts (ExperienceMutationSchema uuid_re year)
        (JObj (AList.update ''started_from_month'' (JStr s) kvs))"
    and "accepts (ExperienceMutationSchema uuid_re year)
        (JObj (AList.update ''started_from_year'' (JStr s) kvs))"
    and "accepts (ExperienceMutationSchema uuid_re year)
        (JObj (AList.update ''finished_at_month'' (JStr s) kvs))"
    and "accepts (ExperienceMutationSchema uuid_re year)
        (JObj (AList.update ''finished_at_year'' (JStr s) kvs))" .
  from mutation_date_no_number [OF a]
  show "\<not> accepts (ExperienceMutationSchema uuid_re year)
        (JObj (AList.update ''started_from_month'' (JNum n) kvs))"
    and "\<not> accepts (ExperienceMutationSchema uuid_re year)
        (JObj (AList.update ''started_from_year'' (JNum n) kvs))"
    and "\<not> accepts (ExperienceMutationSchema uuid_re year)
        (JObj (AList.update ''finished_at_month'' (JNum n) kvs))"
    and "\<not> accepts (ExperienceMutationSchema uuid_re year)
        (JObj (AList.update ''finished_at_year'' (JNum n) kvs))" .
qed

theorem ExperienceMutationSchema_date_parts_witness:
  "accepts (ExperienceSchema sample_uuid_re 2026) (sample_experience (JNum (Fin 11))) \<and>
   date_part 1 12 (member (sample_experience (JNum (Fin 11))) ''started_from_month'') \<and>
   accepts (ExperienceMutationSchema sample_uuid_re 2026)
     (JObj (sample_mutation (JStr ''thirteen''))) \<and>
   string_or_nullish (member (JObj (sample_mutation (JStr ''thirteen''))) ''started_from_month'') \<and>
   accepts (ExperienceMutationSchema sample_uuid_re 2026)
     (JObj (AList.update ''finished_at_year'' (JStr ''1066'') (sample_mutation (JStr ''thirteen'')))) \<and>
   \<not> accepts (ExperienceMutationSchema sample_uuid_re 2026)
     (JObj (AList.update ''finished_at_year'' (JNum (Fin 2024)) (sample_mutation (JStr ''thirteen''))))"
  using ExperienceMutationSchema_date_parts [of sample_uuid_re 2026
      "sample_experience (JNum (Fin 11))" "JObj (sample_mutation (JStr ''thirteen''))"
      "sample_mutation (JStr ''thirteen'')" "''1066''" "Fin 2024"]
    sample_experience_accepted sample_mutation_accepted
  by simp

text \<open>
  C2 as stated fails: the mutation schema accepts the start month \<open>"thirteen"\<close>, which
  is no integer from 1 to 12, and rejects the same mutation with the integer 5 as its start
  month.
\<close>

theorem ExperienceMutationSchema_integers_counterexample:
  "accepts (ExperienceMutationSchema sample_uuid_re 2026)
     (JObj (sample_mutation (JStr ''thirteen''))) \<and>
   member (JObj (sample_mutation (JStr ''thirteen''))) ''started_from_month'' = JStr ''thirteen'' \<and>
   \<not> accepts (ExperienceMutationSchema sample_uuid_re 2026)
     (JObj (sample_mutation (JNum (Fin 5)))) \<and>
   member (JObj (sample_mutation (JNum (Fin 5)))) ''started_from_month'' = JNum (Fin 5)"
  using sample_mutation_accepted sample_mutation_rejected
  by (simp add: sample_mutation_def getProp_def)

text \<open>
  C8. Every mutation that \<open>ExperienceMutationSchema\<close> accepts has one of the eight
  codes as its \<open>employment_type\<close>; in an accepted mutation, putting a string in that
  field keeps the mutation accepted if and only if the string is one of the eight codes;
  and the values of \<open>employmentTypes\<close> are these eight codes, once each, in this order.
\<close>

theorem ExperienceMutationSchema_employment_type:
  "(accepts (ExperienceMutationSchema uuid_re year) m \<longrightarrow>
      (\<exists>s. member m ''employment_type'' = JStr s \<and>
           s \<in> set [''flt'', ''prt'', ''con'', ''int'', ''fre'', ''sel'', ''vol'', ''tra''])) \<and>
   (accepts (ExperienceMutationSchema uuid_re year) (JObj kvs) \<longrightarrow>
      accepts (ExperienceMutationSchema uuid_re year)
        (JObj (AList.update ''employment_type'' (JStr s) kvs))
      = (s \<in> set [''flt'', ''prt'', ''con'', ''int'', ''fre'', ''sel'', ''vol'', ''tra''])) \<and>
   map (\<lambda>t. member t ''value'') employmentTypes =
     map JStr [''flt'', ''prt'', ''con'', ''int'', ''fre'', ''sel'', ''vol'', ''tra'']"
  using mutation_employment_type_member [of uuid_re year m]
    mutation_employment_type [of uuid_re year kvs s] employmentTypes_values
  by blast

theorem ExperienceMutationSchema_employment_type_witness:
  "accepts (ExperienceMutationSchema sample_uuid_re 2026)
     (JObj (sample_mutation (JStr ''May''))) \<and>
   member (JObj (sample_mutation (JStr ''May''))) ''employment_type'' = JStr ''flt'' \<and>
   accepts (ExperienceMutationSchema sample_uuid_re 2026)
     (JObj (AList.update ''employment_type'' (JStr ''vol'') (sample_mutation (JStr ''May'')))) \<and>
   \<not> accepts (ExperienceMutationSchema sample_uuid_re 2026)
     (JObj (AList.update ''employment_type'' (JStr ''full'') (sample_mutation (JStr ''May''))))"
proof -
  have a: "accepts (ExperienceMutationSchema sample_uuid_re 2026)
     (JObj (sample_mutation (JStr ''May'')))"
    unfolding ExperienceMutationSchema_shape
    by (simp add: sample_mutation_def getProp_def country_code_re_def)
  have m: "member (JObj (sample_mutation (JStr ''May''))) ''employment_type'' = JStr ''flt''"
    by (simp add: sample_mutation_def getProp_def)
  show ?thesis
    using a m
      ExperienceMutationSchema_employment_type [of sample_uuid_re 2026
        "JObj (sample_mutation (JStr ''May''))" "sample_mutation (JStr ''May'')" "''vol''"]
      ExperienceMutationSchema_employment_type [of sample_uuid_re 2026
        "JObj (sample_mutation (JStr ''May''))" "sample_mutation (JStr ''May'')" "''full''"]
    by simp
qed

section \<open>The handlers\<close>

lemma PersonalDetailsForm_ok:
  "addOrUpdateUserInfoToDB env (JObj values) = Inr result \<Longrightarrow>
     PersonalDetailsForm_onSubmit env values =
       [Call ''addOrUpdateUserInfoToDB'' (JObj values), Push ''/app/onboarding?step=education'']"
  by (simp add: PersonalDetailsForm_onSubmit_def)

lemma PersonalDetailsForm_fail:
  "addOrUpdateUserInfoToDB env (JObj values) = Inl e \<Longrightarrow>
     PersonalDetailsForm_onSubmit env values =
       [Call ''addOrUpdateUserInfoToDB'' (JObj values),
        Toast ''Failed to update information, please try again'']"
  by (simp add: PersonalDetailsForm_onSubmit_def)

lemma submitWithRedirect_ok:
  "addEducationToDB env (education_payload env values) = Inr result \<Longrightarrow>
     EducationForm_submitWithRedirect env True values =
       [Call ''addEducationToDB'' (education_payload env values),
        Push ''/app/onboarding?step=experience'']"
  by (simp add: EducationForm_submitWithRedirect_def insertEducation_def)

lemma submitWithRedirect_clean:
  "EducationForm_submitWithRedirect env False values = [Push ''/app/onboarding?step=experience'']"
  by (simp add: EducationForm_submitWithRedirect_def)

lemma submitWithRedirect_fail:
  "addEducationToDB env (education_payload env values) = Inl e \<Longrightarrow>
     EducationForm_submitWithRedirect env True values =
       [Call ''addEducationToDB'' (education_payload env values),
        Toast ''Failed to update education, please try again'']"
  by (simp add: EducationForm_submitWithRedirect_def insertEducation_def)

lemma onSubmit_fail:
  "addEducationToDB env (education_payload env values) = Inl e \<Longrightarrow>
     EducationForm_onSubmit env educations values =
       [Call ''addEducationToDB'' (education_payload env values),
        Toast ''Failed to add education, please try again'']"
  by (simp add: EducationForm_onSubmit_def EducationForm_onSubmit_try_def insertEducation_def)

lemma onSubmit_falsy:
  "addEducationToDB env (education_payload env values) = Inr v \<Longrightarrow> \<not> truthy v \<Longrightarrow>
     EducationForm_onSubmit env educations values =
       [Call ''addEducationToDB'' (education_payload env values),
        Toast ''Failed to add education, please try again'']"
  by (simp add: EducationForm_onSubmit_def EducationForm_onSubmit_try_def insertEducation_def)

lemma onSubmit_ok:
  "addEducationToDB env (education_payload env values) = Inr v \<Longrightarrow> truthy v \<Longrightarrow>
     EducationForm_onSubmit env educations values =
       [Call ''addEducationToDB'' (education_payload env values),
        SetEducations (educations @ [v]), FormReset]"
  by (simp add: EducationForm_onSubmit_def EducationForm_onSubmit_try_def insertEducation_def)

lemma onSubmit_cases:
  obtains e where "addEducationToDB env (education_payload env values) = Inl e"
  | v where "addEducationToDB env (education_payload env values) = Inr v" and "\<not> truthy v"
  | v where "addEducationToDB env (education_payload env values) = Inr v" and "truthy v"
  by (cases "addEducationToDB env (education_payload env values)") auto

lemma onSubmit_set_only_on_success:
  assumes "SetEducations l \<in> set (EducationForm_onSubmit env educations values) \<or>
           FormReset \<in> set (EducationForm_onSubmit env educations values)"
  shows "\<exists>v. addEducationToDB env (education_payload env values) = Inr v \<and> truthy v"
proof (cases rule: onSubmit_cases [of env "values"])
  case (1 e)
  with assms show ?thesis by (simp add: onSubmit_fail)
next
  case (2 v)
  with assms show ?thesis by (simp add: onSubmit_falsy)
next
  case (3 v)
  then show ?thesis by blast
qed

lemma signUp_no_toast: "toasts (snd (signUpForWaitlist env a r)) = []"
  by (simp add: signUpForWaitlist_def toasts_def Let_def split: sum.splits)

lemma signUp_one_fetch: "length (fetches (snd (signUpForWaitlist env a r))) \<le> 1"
  by (simp add: signUpForWaitlist_def fetches_def Let_def split: sum.splits)

lemma POST_no_toast: "toasts (snd (POST env)) = []"
  by (simp add: POST_def POST_try_def toasts_def Let_def split: sum.splits prod.splits list.splits)

lemma POST_one_fetch: "length (fetches (snd (POST env))) \<le> 1"
  by (simp add: POST_def POST_try_def fetches_def Let_def split: sum.splits prod.splits list.splits)

lemma POST_answer:
  "fst (POST env) = (case fst (POST_try env) of Inl e \<Rightarrow> JObj [(''message'', JStr ''Failed'')] | Inr a \<Rightarrow> JObj [(''message'', JStr ''Success'')])"
  by (simp add: POST_def POST_try_def Let_def split: sum.splits prod.splits list.splits)

lemma PersonalDetailsForm_one_call:
  "length (calls (PersonalDetailsForm_onSubmit env vs)) = 1"
  by (simp add: PersonalDetailsForm_onSubmit_def calls_def split: sum.splits)

lemma EducationForm_one_call:
  "length (calls (EducationForm_onSubmit env educations vs)) = 1"
  by (simp add: EducationForm_onSubmit_def EducationForm_onSubmit_try_def insertEducation_def
      calls_def split: sum.splits)

lemma submitWithRedirect_one_call:
  "length (calls (EducationForm_submitWithRedirect env isDirty vs)) \<le> 1"
  by (simp add: EducationForm_submitWithRedirect_def insertEducation_def calls_def
      split: sum.splits)

text \<open>
  C3. When \<open>addOrUpdateUserInfoToDB\<close> resolves, \<open>PersonalDetailsForm.onSubmit\<close>
  calls it once and navigates to \<open>/app/onboarding?step=education\<close>. When the form is
  dirty and the insert resolves, \<open>EducationForm.submitWithRedirect\<close> navigates to
  \<open>/app/onboarding?step=experience\<close>; when the form is not dirty it navigates there
  without an insert. This holds for every form input, so for every input the validation
  schema accepts.
\<close>

theorem onboarding_next_step:
  "(addOrUpdateUserInfoToDB env (JObj vs) = Inr result \<longrightarrow>
      PersonalDetailsForm_onSubmit env vs =
        [Call ''addOrUpdateUserInfoToDB'' (JObj vs), Push ''/app/onboarding?step=education'']) \<and>
   (addEducationToDB env (education_payload env vs) = Inr result \<longrightarrow>
      EducationForm_submitWithRedirect env True vs =
        [Call ''addEducationToDB'' (education_payload env vs),
         Push ''/app/onboarding?step=experience'']) \<and>
   EducationForm_submitWithRedirect env False vs = [Push ''/app/onboarding?step=experience'']"
  using PersonalDetailsForm_ok [of env vs result] submitWithRedirect_ok [of env vs result]
    submitWithRedirect_clean [of env vs]
  by blast

theorem onboarding_next_step_witness:
  "addOrUpdateUserInfoToDB (sample_env (Inl (Rejected ''unused'')) (Inr (JStr ''saved'')))
     (JObj sample_values) = Inr (JStr ''saved'') \<and>
   PersonalDetailsForm_onSubmit (sample_env (Inl (Rejected ''unused'')) (Inr (JStr ''saved'')))
     sample_values =
     [Call ''addOrUpdateUserInfoToDB'' (JObj sample_values),
      Push ''/app/onboarding?step=education''] \<and>
   EducationForm_submitWithRedirect (sample_env (Inl (Rejected ''unused'')) (Inr (JStr ''saved'')))
     True sample_values =
     [Call ''addEducationToDB''
        (education_payload (sample_env (Inl (Rejected ''unused'')) (Inr (JStr ''saved'')))
           sample_values),
      Push ''/app/onboarding?step=experience'']"
  using onboarding_next_step [of "sample_env (Inl (Rejected ''unused'')) (Inr (JStr ''saved''))"
      sample_values "JStr ''saved''"]
  by (simp add: sample_env_def)

text \<open>
  C5. When \<open>addEducationToDB\<close> rejects or resolves to a falsy value,
  \<open>EducationForm.onSubmit\<close> does nothing but show the error toast: \<open>setEducations\<close>
  is not called and the form is not reset. \<open>setEducations\<close> and \<open>form.reset\<close> happen
  only when the insert resolves to a truthy value, and then the list handed to
  \<open>setEducations\<close> is the old one with the new entry at its end.
\<close>

theorem EducationForm_onSubmit_failure:
  "((\<exists>e. addEducationToDB env (education_payload env vs) = Inl e) \<or>
    (\<exists>v. addEducationToDB env (education_payload env vs) = Inr v \<and> \<not> truthy v) \<longrightarrow>
      EducationForm_onSubmit env educations vs =
        [Call ''addEducationToDB'' (education_payload env vs),
         Toast ''Failed to add education, please try again'']) \<and>
   (SetEducations l \<in> set (EducationForm_onSubmit env educations vs) \<or>
    FormReset \<in> set (EducationForm_onSubmit env educations vs) \<longrightarrow>
      (\<exists>v. addEducationToDB env (education_payload env vs) = Inr v \<and> truthy v)) \<and>
   (addEducationToDB env (education_payload env vs) = Inr new \<and> truthy new \<longrightarrow>
      EducationForm_onSubmit env educations vs =
        [Call ''addEducationToDB'' (education_payload env vs),
         SetEducations (educations @ [new]), FormReset])"
  using onSubmit_fail [of env vs _ educations] onSubmit_falsy [of env vs _ educations]
    onSubmit_set_only_on_success [of l env educations vs]
    onSubmit_ok [of env vs new educations]
  by blast

theorem EducationForm_onSubmit_failure_witness:
  "EducationForm_onSubmit (sample_env (Inl (Rejected ''unused'')) (Inl (Rejected ''offline'')))
     [JStr ''old''] sample_values =
     [Call ''addEducationToDB''
        (education_payload (sample_env (Inl (Rejected ''unused'')) (Inl (Rejected ''offline'')))
           sample_values),
      Toast ''Failed to add education, please try again''] \<and>
   EducationForm_onSubmit (sample_env (Inl (Rejected ''unused'')) (Inr JNull))
     [JStr ''old''] sample_values =
     [Call ''addEducationToDB''
        (education_payload (sample_env (Inl (Rejected ''unused'')) (Inr JNull)) sample_values),
      Toast ''Failed to add education, please try again''] \<and>
   EducationForm_onSubmit (sample_env (Inl (Rejected ''unused'')) (Inr (JStr ''new'')))
     [JStr ''old''] sample_values =
     [Call ''addEducationToDB''
        (education_payload (sample_env (Inl (Rejected ''unused'')) (Inr (JStr ''new'')))
           sample_values),
      SetEducations [JStr ''old'', JStr ''new''], FormReset]"
  using
    EducationForm_onSubmit_failure [of
      "sample_env (Inl (Rejected ''unused'')) (Inl (Rejected ''offline''))" sample_values
      "[JStr ''old'']"]
    EducationForm_onSubmit_failure [of
      "sample_env (Inl (Rejected ''unused'')) (Inr JNull)" sample_values "[JStr ''old'']"]
    EducationForm_onSubmit_failure [of
      "sample_env (Inl (Rejected ''unused'')) (Inr (JStr ''new''))" sample_values
      "[JStr ''old'']" _ "JStr ''new''"]
  by (simp add: sample_env_def)

text \<open>
  C7. \<open>ExperienceForm.onSubmit\<close> hands \<open>setExperiences\<close> the old list with the
  submitted values appended, and resets the form: the new list is one longer, every old
  entry is where it was, and the last entry is the submitted values.
\<close>

theorem ExperienceForm_onSubmit_appends:
  "ExperienceForm_onSubmit experiences vs =
     [SetExperiences (experiences @ [JObj vs]), FormReset] \<and>
   (\<forall>l. SetExperiences l \<in> set (ExperienceForm_onSubmit experiences vs) \<longrightarrow>
      length l = Suc (length experiences) \<and>
      take (length experiences) l = experiences \<and>
      (\<forall>i < length experiences. l ! i = experiences ! i) \<and>
      last l = JObj vs)"
  by (simp add: ExperienceForm_onSubmit_def nth_append)

theorem ExperienceForm_onSubmit_appends_witness:
  "ExperienceForm_onSubmit [JStr ''first'', JStr ''second''] sample_values =
     [SetExperiences [JStr ''first'', JStr ''second'', JObj sample_values], FormReset] \<and>
   SetExperiences [JStr ''first'', JStr ''second'', JObj sample_values] \<in>
     set (ExperienceForm_onSubmit [JStr ''first'', JStr ''second''] sample_values) \<and>
   length [JStr ''first'', JStr ''second'', JObj sample_values] = 3 \<and>
   [JStr ''first'', JStr ''second'', JObj sample_values] ! 1 = JStr ''second''"
  using ExperienceForm_onSubmit_appends [of "[JStr ''first'', JStr ''second'']" sample_values]
  by simp

text \<open>
  C4, as the code has it. In the onboarding forms a rejected server action surfaces as
  one error toast, and nothing is tried again: each handler calls its server action at most
  once, and \<open>signUpForWaitlist\<close> and the Discord route send at most one request. Neither
  \<open>signUpForWaitlist\<close> nor the Discord route ever shows a toast; the Discord route
  answers \<open>{message: 'Failed'}\<close> when its \<open>try\<close> block throws.
\<close>

theorem failures_and_toasts:
  "(addOrUpdateUserInfoToDB env (JObj vs) = Inl e \<longrightarrow>
      PersonalDetailsForm_onSubmit env vs =
        [Call ''addOrUpdateUserInfoToDB'' (JObj vs),
         Toast ''Failed to update information, please try again'']) \<and>
   (addEducationToDB env (education_payload env vs) = Inl e \<longrightarrow>
      EducationForm_onSubmit env educations vs =
        [Call ''addEducationToDB'' (education_payload env vs),
         Toast ''Failed to add education, please try again''] \<and>
      EducationForm_submitWithRedirect env True vs =
        [Call ''addEducationToDB'' (education_payload env vs),
         Toast ''Failed to update education, please try again'']) \<and>
   length (calls (PersonalDetailsForm_onSubmit env vs)) = 1 \<and>
   length (calls (EducationForm_onSubmit env educations vs)) = 1 \<and>
   length (calls (EducationForm_submitWithRedirect env isDirty vs)) \<le> 1 \<and>
   toasts (snd (signUpForWaitlist env address referrer)) = [] \<and>
   length (fetches (snd (signUpForWaitlist env address referrer))) \<le> 1 \<and>
   toasts (snd (POST env)) = [] \<and>
   length (fetches (snd (POST env))) \<le> 1 \<and>
   (fst (POST_try env) = Inl e \<longrightarrow> fst (POST env) = JObj [(''message'', JStr ''Failed'')])"
  using PersonalDetailsForm_fail [of env vs e] onSubmit_fail [of env vs e educations]
    submitWithRedirect_fail [of env vs e]
    PersonalDetailsForm_one_call [of env vs] EducationForm_one_call [of env educations vs]
    submitWithRedirect_one_call [of env isDirty vs]
    signUp_no_toast [of env address referrer] signUp_one_fetch [of env address referrer]
    POST_no_toast [of env] POST_one_fetch [of env] POST_answer [of env]
  by (intro conjI impI) (simp_all only: sum.case)

theorem failures_and_toasts_witness:
  "addOrUpdateUserInfoToDB (sample_env (Inl (Rejected ''network'')) (Inl (Rejected ''offline'')))
     (JObj sample_values) = Inl (Rejected ''offline'') \<and>
   PersonalDetailsForm_onSubmit (sample_env (Inl (Rejected ''network'')) (Inl (Rejected ''offline'')))
     sample_values =
     [Call ''addOrUpdateUserInfoToDB'' (JObj sample_values),
      Toast ''Failed to update information, please try again''] \<and>
   EducationForm_submitWithRedirect
     (sample_env (Inl (Rejected ''network'')) (Inl (Rejected ''offline''))) True sample_values =
     [Call ''addEducationToDB''
        (education_payload (sample_env (Inl (Rejected ''network'')) (Inl (Rejected ''offline'')))
           sample_values),
      Toast ''Failed to update education, please try again''] \<and>
   toasts (snd (POST (sample_env (Inl (Rejected ''network'')) (Inl (Rejected ''offline''))))) = []"
  using failures_and_toasts [of
      "sample_env (Inl (Rejected ''network'')) (Inl (Rejected ''offline''))" sample_values
      "Rejected ''offline''"]
  by (simp add: sample_env_def)

text \<open>
  C4 as stated fails. A waitlist signup that the API refuses is logged on the console
  and returns the parameters, with no toast. A Discord announcement whose request is
  rejected answers \<open>{message: 'Failed'}\<close> with no toast, and one whose request is
  answered with a status that is not ok answers \<open>{message: 'Success'}\<close>.
\<close>

theorem failed_posts_show_no_toast:
  "signUpForWaitlist
     (sample_env (Inr \<lparr>ok = False,
        json = Inr (JObj [(''error'', JObj [(''details'', JStr ''duplicate'')])])\<rparr>) (Inr JNull))
     ''a@b.co'' JUndefined =
   (Inr (JObj [(''email'', JStr ''a@b.co''), (''referrer'', JUndefined)]),
    [Fetch \<lparr>url = ''https://api.letraz.app/waitlist/'', http_method = ''POST'',
            headers = [(''Content-Type'', ''application/json'')],
            body = JObj [(''email'', JStr ''a@b.co''), (''referrer'', JUndefined)]\<rparr>,
     ConsoleLog (JStr ''DUPLICATE ENTRY''), ConsoleLog (JStr ''duplicate'')]) \<and>
   toasts (snd (signUpForWaitlist
     (sample_env (Inr \<lparr>ok = False,
        json = Inr (JObj [(''error'', JObj [(''details'', JStr ''duplicate'')])])\<rparr>) (Inr JNull))
     ''a@b.co'' JUndefined)) = [] \<and>
   fst (POST (sample_env (Inl (Rejected ''network'')) (Inr JNull))) =
     JObj [(''message'', JStr ''Failed'')] \<and>
   toasts (snd (POST (sample_env (Inl (Rejected ''network'')) (Inr JNull)))) = [] \<and>
   fst (POST (sample_env (Inr \<lparr>ok = False, json = Inr JNull\<rparr>) (Inr JNull))) =
     JObj [(''message'', JStr ''Success'')] \<and>
   toasts (snd (POST (sample_env (Inr \<lparr>ok = False, json = Inr JNull\<rparr>) (Inr JNull)))) = []"
  by (simp add: signUpForWaitlist_def POST_def POST_try_def sample_env_def Let_def getProp_def
      toasts_def)

text \<open>
  What \<open>signUpForWaitlist\<close> does with a response that is not ok, when the body can be
  read as JSON and its \<open>error\<close> member is neither \<open>undefined\<close> nor \<open>null\<close>: it
  returns the parsed parameters. No welcome e-mail is sent for any response that is not ok.
\<close>

lemma signUp_not_ok:
  assumes "WaitlistMutationSchema_parse env (JObj [(''email'', JStr a), (''referrer'', r)]) = Inr params"
    and "fetch env \<lparr>url = API_URL env @ ''/waitlist/'', http_method = ''POST'',
                     headers = [(''Content-Type'', ''application/json'')],
                     body = JObj params\<rparr> = Inr response"
    and "\<not> ok response"
    and "json response = Inr data"
    and "readProp data ''error'' = Inr err"
    and "readProp err ''details'' = Inr details"
  shows "fst (signUpForWaitlist env a r) = Inr (JObj params)"
    and "emails (snd (signUpForWaitlist env a r)) = []"
  using assms by (simp_all add: signUpForWaitlist_def emails_def Let_def)

lemma signUp_not_ok_no_email:
  assumes "WaitlistMutationSchema_parse env (JObj [(''email'', JStr a), (''referrer'', r)]) = Inr params"
    and "fetch env \<lparr>url = API_URL env @ ''/waitlist/'', http_method = ''POST'',
                     headers = [(''Content-Type'', ''application/json'')],
                     body = JObj params\<rparr> = Inr response"
    and "\<not> ok response"
  shows "emails (snd (signUpForWaitlist env a r)) = []"
  using assms by (simp add: signUpForWaitlist_def emails_def Let_def split: sum.splits)

text \<open>The welcome e-mail goes out only after a response that is ok.\<close>

lemma signUp_email_only_when_ok:
  assumes "SendEmail mail \<in> set (snd (signUpForWaitlist env a r))"
  shows "\<exists>params response.
           WaitlistMutationSchema_parse env (JObj [(''email'', JStr a), (''referrer'', r)])
             = Inr params \<and>
           fetch env \<lparr>url = API_URL env @ ''/waitlist/'', http_method = ''POST'',
                      headers = [(''Content-Type'', ''application/json'')],
                      body = JObj params\<rparr> = Inr response \<and>
           ok response"
  using assms
  by (simp add: signUpForWaitlist_def Let_def split: sum.splits if_splits)

text \<open>
  C6. The waitlist API answers with a status that is not ok and the JSON body
  \<open>{"detail": "Request was throttled."}\<close>, which has no \<open>error\<close> member. Reading
  \<open>data.error.details\<close> for the console throws a \<open>TypeError\<close>, and the promise
  rejects instead of resolving to the parameters.
\<close>

theorem signUpForWaitlist_error_body_throws:
  "signUpForWaitlist (sample_env (Inr \<lparr>ok = False, json = Inr (JObj [(''detail'', JStr ''Request was throttled.'')])\<rparr>) (Inr JNull))
      ''a@b.co'' JUndefined =
   (Inl (TypeError ''Cannot read properties of undefined''),
    [Fetch \<lparr>url = ''https://api.letraz.app/waitlist/'', http_method = ''POST'',
            headers = [(''Content-Type'', ''application/json'')],
            body = JObj [(''email'', JStr ''a@b.co''), (''referrer'', JUndefined)]\<rparr>,
     ConsoleLog (JStr ''DUPLICATE ENTRY'')])"
  by (simp add: signUpForWaitlist_def sample_env_def Let_def getProp_def)

end
